theory Spec2Isabelle
  imports Main "HOL-Library.Sublist"
begin

section \<open>Path and string helpers of the Python runtime (POSIX flavour)\<close>

text \<open>
  \<^verbatim>\<open>video2audio.py\<close> manipulates paths only through \<^verbatim>\<open>os.path\<close> and expands file
  patterns through \<^verbatim>\<open>glob\<close>. The functions below follow \<^verbatim>\<open>posixpath\<close>, \<^verbatim>\<open>fnmatch\<close>
  and \<^verbatim>\<open>glob\<close> of CPython on a POSIX system: the separator is \<^verbatim>\<open>/\<close> and pattern
  matching is case-sensitive. Strings are lists of characters.
\<close>

type_synonym path = string

definition has_sep :: "string \<Rightarrow> bool" where
  "has_sep s = (CHR ''/'' \<in> set s)"

text \<open>\<^verbatim>\<open>p[p.rfind('/') + 1:]\<close>: what follows the last separator.\<close>

definition basename :: "path \<Rightarrow> string" where
  "basename p = rev (takeWhile (\<lambda>c. c \<noteq> CHR ''/'') (rev p))"

text \<open>\<^verbatim>\<open>s.rstrip('/')\<close>.\<close>

definition rstrip_sep :: "string \<Rightarrow> string" where
  "rstrip_sep s = rev (dropWhile (\<lambda>c. c = CHR ''/'') (rev s))"

text \<open>
  \<^verbatim>\<open>head = p[:p.rfind('/') + 1]; if head and head != '/' * len(head): head = head.rstrip('/')\<close>
\<close>

definition dirname :: "path \<Rightarrow> path" where
  "dirname p =
     (let head = rev (dropWhile (\<lambda>c. c \<noteq> CHR ''/'') (rev p))
      in if head \<noteq> [] \<and> (\<exists>c \<in> set head. c \<noteq> CHR ''/'') then rstrip_sep head else head)"

text \<open>\<^verbatim>\<open>os.path.split\<close> returns the pair of both.\<close>

definition os_path_split :: "path \<Rightarrow> path \<times> string" where
  "os_path_split p = (dirname p, basename p)"

text \<open>
  \<^verbatim>\<open>os.path.join(a, b)\<close> with one component:
  \<^verbatim>\<open>if b.startswith('/'): path = b
  elif not path or path.endswith('/'): path += b
  else: path += '/' + b\<close>
\<close>

definition join :: "path \<Rightarrow> string \<Rightarrow> path" where
  "join a b =
     (if b \<noteq> [] \<and> hd b = CHR ''/'' then b
      else if a = [] \<or> last a = CHR ''/'' then a @ b
      else a @ ''/'' @ b)"

text \<open>
  \<^verbatim>\<open>os.path.splitext\<close>: the extension starts at the last dot of the last path component,
  unless only dots precede it there (leading dots belong to the root).
\<close>

definition splitext :: "path \<Rightarrow> path \<times> string" where
  "splitext p =
     (let name = basename p;
          ext = rev (takeWhile (\<lambda>c. c \<noteq> CHR ''.'') (rev name));
          stem = take (length name - length ext - 1) name
      in if CHR ''.'' \<in> set name \<and> (\<exists>c \<in> set stem. c \<noteq> CHR ''.'')
         then (take (length p - length ext - 1) p, CHR ''.'' # ext)
         else (p, []))"

text \<open>\<^verbatim>\<open>str.upper\<close> on ASCII text (the patterns of the program are ASCII).\<close>

definition ascii_upper :: "char \<Rightarrow> char" where
  "ascii_upper c =
     (case map_of (zip ''abcdefghijklmnopqrstuvwxyz'' ''ABCDEFGHIJKLMNOPQRSTUVWXYZ'') c of
        Some u \<Rightarrow> u
      | None \<Rightarrow> c)"

definition upper :: "string \<Rightarrow> string" where
  "upper s = map ascii_upper s"

section \<open>The environment: file system, directory creation, the external engine\<close>

datatype node = RegularFile | Directory | Special

datatype os_error = FileNotFoundError | PermissionError | OtherOSError

text \<open>Exceptions that leave a function of the program uncaught.\<close>

datatype exn = OSErr os_error | SystemExit nat

text \<open>
  What starting a program gives: it could not be started (\<^verbatim>\<open>subprocess.run\<close> raises an
  \<^verbatim>\<open>OSError\<close>), or it ran and exited with a status, having written some text to its
  error stream.
\<close>

datatype proc_result = SpawnError os_error | Exited int string

text \<open>
  The world \<open>'w\<close> is whatever the operating system holds; the program reaches it only
  through these operations. \<open>mkdirs\<close> is \<^verbatim>\<open>os.makedirs(p, exist_ok=True)\<close>, with \<open>Some e\<close>
  when it raises. \<open>listdir\<close> is the listing \<^verbatim>\<open>glob\<close> reads, \<open>None\<close> when the directory
  cannot be read. \<open>glob_dirs\<close> expands a directory part that itself contains pattern
  characters (the recursive call of \<^verbatim>\<open>glob\<close>).
\<close>

record 'w env =
  kind :: "'w \<Rightarrow> path \<Rightarrow> node option"
  listdir :: "'w \<Rightarrow> path \<Rightarrow> string list option"
  glob_dirs :: "'w \<Rightarrow> path \<Rightarrow> path list"
  mkdirs :: "'w \<Rightarrow> path \<Rightarrow> os_error option \<times> 'w"
  spawn :: "'w \<Rightarrow> string list \<Rightarrow> proc_result \<times> 'w"

definition os_path_exists :: "'w env \<Rightarrow> 'w \<Rightarrow> path \<Rightarrow> bool" where
  "os_path_exists E w p = (kind E w p \<noteq> None)"

definition os_path_isfile :: "'w env \<Rightarrow> 'w \<Rightarrow> path \<Rightarrow> bool" where
  "os_path_isfile E w p = (kind E w p = Some RegularFile)"

definition os_path_isdir :: "'w env \<Rightarrow> 'w \<Rightarrow> path \<Rightarrow> bool" where
  "os_path_isdir E w p = (kind E w p = Some Directory)"

text \<open>
  \<^verbatim>\<open>subprocess.run(cmd, check=True)\<close>, with or without
  \<^verbatim>\<open>stdout=PIPE, stderr=PIPE\<close>. A non-zero status raises \<^verbatim>\<open>CalledProcessError\<close>, whose
  \<^verbatim>\<open>stderr\<close> attribute is the captured text, or \<^verbatim>\<open>None\<close> when nothing was captured.
\<close>

datatype run_outcome =
    CompletedProcess
  | CalledProcessError int "string option"
  | RunRaised os_error

definition subprocess_run :: "'w env \<Rightarrow> string list \<Rightarrow> bool \<Rightarrow> 'w \<Rightarrow> run_outcome \<times> 'w" where
  "subprocess_run E cmd capture w =
     (case spawn E w cmd of
        (SpawnError e, w') \<Rightarrow> (RunRaised e, w')
      | (Exited rc err, w') \<Rightarrow>
          if rc \<noteq> 0 then (CalledProcessError rc (if capture then Some err else None), w')
          else (CompletedProcess, w'))"

section \<open>Observable effects\<close>

text \<open>
  The messages handed to the logger, by what they carry: the message of a
  \<^verbatim>\<open>CalledProcessError\<close> shows the command and the exit status, nothing else.
\<close>

datatype message =
    Ffmpeg_not_installed
  | Ffmpeg_install_hint
  | Input_not_found path
  | Executing "string list"
  | Conversion_ok string string
  | Conversion_error "string list" int
  | Details string
  | No_video_found path
  | Batch_start nat
  | Batch_done nat nat
  | Batch_input_not_dir path
  | Summary nat nat
  | Finished

datatype level = INFO | WARNING | ERROR

text \<open>\<open>Run cmd captured\<close>: the engine was started on \<open>cmd\<close>, its output captured or not.\<close>

datatype event = Log level message | Makedirs path | Run "string list" bool

fun is_run :: "event \<Rightarrow> bool" where
  "is_run (Run _ _) = True"
| "is_run _ = False"

section \<open>convert_video_to_audio\<close>

text \<open>Lines 64 to 86: the argument vector.\<close>

definition ffmpeg_cmd :: "path \<Rightarrow> path \<Rightarrow> string \<Rightarrow> string \<Rightarrow> string list" where
  "ffmpeg_cmd input_path output_path audio_format quality =
     (let cmd = [''ffmpeg'', ''-i'', input_path, ''-vn''];
          cmd = (if audio_format = ''mp3'' then cmd @ [''-c:a'', ''libmp3lame'', ''-b:a'', quality]
                 else if audio_format = ''wav'' then cmd @ [''-c:a'', ''pcm_s16le'']
                 else cmd @ [''-c:a'', ''copy''])
      in cmd @ [output_path])"

text \<open>\<^verbatim>\<open>os.path.dirname(output_path) or '.'\<close>\<close>

definition output_parent :: "path \<Rightarrow> path" where
  "output_parent output_path = (if dirname output_path = [] then ''.'' else dirname output_path)"

text \<open>\<^verbatim>\<open>verbose and e.stderr\<close>: \<^verbatim>\<open>None\<close> and the empty text are false.\<close>

fun truthy :: "string option \<Rightarrow> bool" where
  "truthy None = False"
| "truthy (Some s) = (s \<noteq> [])"

text \<open>
  The result is the returned boolean, or the exception that leaves the function; with it
  the world afterwards and the effects in the order they happen.
\<close>

definition convert_video_to_audio ::
  "'w env \<Rightarrow> path \<Rightarrow> path \<Rightarrow> string \<Rightarrow> string \<Rightarrow> bool \<Rightarrow> 'w \<Rightarrow> (exn + bool) \<times> 'w \<times> event list" where
  "convert_video_to_audio E input_path output_path audio_format quality verbose w =
     (if \<not> os_path_exists E w input_path
      then (Inr False, w, [Log ERROR (Input_not_found input_path)])
      else
        case mkdirs E w (output_parent output_path) of
          (Some e, w1) \<Rightarrow> (Inl (OSErr e), w1, [Makedirs (output_parent output_path)])
        | (None, w1) \<Rightarrow>
            let cmd = ffmpeg_cmd input_path output_path audio_format quality;
                pre = Makedirs (output_parent output_path)
                      # (if verbose then [Log INFO (Executing cmd)] else [])
                      @ [Run cmd (\<not> verbose)]
            in case subprocess_run E cmd (\<not> verbose) w1 of
                 (CompletedProcess, w2) \<Rightarrow>
                   (Inr True, w2,
                    pre @ [Log INFO (Conversion_ok (basename input_path) (basename output_path))])
               | (CalledProcessError rc err, w2) \<Rightarrow>
                   (Inr False, w2,
                    pre @ [Log ERROR (Conversion_error cmd rc)]
                        @ (if verbose \<and> truthy err then [Log ERROR (Details (the err))] else []))
               | (RunRaised e, w2) \<Rightarrow> (Inl (OSErr e), w2, pre))"

section \<open>Enumeration of the video files\<close>

text \<open>
  \<^verbatim>\<open>fnmatch\<close> on a POSIX system, for patterns made of \<^verbatim>\<open>*\<close>, \<^verbatim>\<open>?\<close> and literal
  characters (no pattern of the program has a bracket expression): the whole name must
  match, \<^verbatim>\<open>*\<close> stands for any text and \<^verbatim>\<open>?\<close> for one character.
\<close>

fun fnmatchcase :: "string \<Rightarrow> string \<Rightarrow> bool" where
  "fnmatchcase [] [] = True"
| "fnmatchcase (c # cs) [] = False"
| "fnmatchcase [] (p # ps) = (p = CHR ''*'' \<and> fnmatchcase [] ps)"
| "fnmatchcase (c # cs) (p # ps) =
     (if p = CHR ''*'' then fnmatchcase (c # cs) ps \<or> fnmatchcase cs (p # ps)
      else if p = CHR ''?'' then fnmatchcase cs ps
      else p = c \<and> fnmatchcase cs ps)"

text \<open>\<^verbatim>\<open>glob._ishidden\<close>: the name starts with a dot.\<close>

fun ishidden :: "string \<Rightarrow> bool" where
  "ishidden [] = False"
| "ishidden (c # cs) = (c = CHR ''.'')"

definition has_magic :: "string \<Rightarrow> bool" where
  "has_magic s = (\<exists>c \<in> set s. c \<in> set ''*?['')"

text \<open>
  \<^verbatim>\<open>glob._glob1\<close>: the names of the directory that match the pattern; hidden names are
  left out since no pattern of the program starts with a dot; an unreadable or missing
  directory gives nothing.
\<close>

definition glob1 :: "'w env \<Rightarrow> 'w \<Rightarrow> path \<Rightarrow> string \<Rightarrow> string list" where
  "glob1 E w d pat =
     (case listdir E w d of
        None \<Rightarrow> []
      | Some names \<Rightarrow> filter (\<lambda>n. fnmatchcase n pat) (filter (\<lambda>n. \<not> ishidden n) names))"

text \<open>
  \<^verbatim>\<open>glob.glob(pathname)\<close> for a pathname whose last component is a pattern, which is how
  the program calls it: the path is split, the directory part is taken as it is (or
  expanded first when it has pattern characters), and every match is joined to its
  directory. Without a directory part the current directory is listed and the bare names
  are returned.
\<close>

definition glob_glob :: "'w env \<Rightarrow> 'w \<Rightarrow> path \<Rightarrow> path list" where
  "glob_glob E w pathname =
     (let (d, pat) = os_path_split pathname
      in if d = [] then glob1 E w ''.'' pat
         else concat (map (\<lambda>d'. map (join d') (glob1 E w d' pat))
                          (if d \<noteq> pathname \<and> has_magic d then glob_dirs E w d else [d])))"

definition video_extensions :: "string list" where
  "video_extensions = [''*.mp4'', ''*.avi'', ''*.mov'', ''*.mkv'', ''*.wmv'', ''*.flv'', ''*.webm'']"

text \<open>
  Lines 135 to 139: for each extension, the matches of the pattern as written, then the
  matches of the pattern in upper case, appended to one list.
\<close>

definition find_video_files :: "'w env \<Rightarrow> 'w \<Rightarrow> path \<Rightarrow> path list" where
  "find_video_files E w input_dir =
     concat (map (\<lambda>ext. glob_glob E w (join input_dir ext)
                         @ glob_glob E w (join input_dir (upper ext)))
                 video_extensions)"

section \<open>batch_convert\<close>

text \<open>Lines 152 to 154: where the audio of one video file goes.\<close>

definition derive_output_path :: "path \<Rightarrow> string \<Rightarrow> path \<Rightarrow> path" where
  "derive_output_path output_dir audio_format video_file =
     (let base_name = basename video_file;
          output_name = fst (splitext base_name) @ ''.'' @ audio_format
      in join output_dir output_name)"

text \<open>
  Lines 147 to 159: the loop over the files found, with its two counters. An exception of a
  conversion leaves the loop; a conversion that returns false does not.
\<close>

fun batch_loop ::
  "'w env \<Rightarrow> path \<Rightarrow> string \<Rightarrow> string \<Rightarrow> bool \<Rightarrow> path list \<Rightarrow> nat \<Rightarrow> nat \<Rightarrow> 'w
   \<Rightarrow> (exn + nat \<times> nat) \<times> 'w \<times> event list" where
  "batch_loop E output_dir audio_format quality verbose [] success_count failure_count w =
     (Inr (success_count, failure_count), w, [])"
| "batch_loop E output_dir audio_format quality verbose (video_file # rest)
       success_count failure_count w =
     (case convert_video_to_audio E video_file
             (derive_output_path output_dir audio_format video_file)
             audio_format quality verbose w of
        (Inl e, w1, tr) \<Rightarrow> (Inl e, w1, tr)
      | (Inr ok, w1, tr) \<Rightarrow>
          (case batch_loop E output_dir audio_format quality verbose rest
                  (if ok then success_count + 1 else success_count)
                  (if ok then failure_count else failure_count + 1) w1 of
             (r, w2, tr') \<Rightarrow> (r, w2, tr @ tr')))"

definition batch_convert ::
  "'w env \<Rightarrow> path \<Rightarrow> path \<Rightarrow> string \<Rightarrow> string \<Rightarrow> bool \<Rightarrow> 'w
   \<Rightarrow> (exn + nat \<times> nat) \<times> 'w \<times> event list" where
  "batch_convert E input_dir0 output_dir0 audio_format quality verbose w =
     (let input_dir = join input_dir0 [];
          output_dir = join output_dir0 []
      in case mkdirs E w output_dir of
           (Some e, w1) \<Rightarrow> (Inl (OSErr e), w1, [Makedirs output_dir])
         | (None, w1) \<Rightarrow>
             (let video_files = find_video_files E w1 input_dir
              in if video_files = []
                 then (Inr (0, 0), w1, [Makedirs output_dir, Log WARNING (No_video_found input_dir)])
                 else
                   (case batch_loop E output_dir audio_format quality verbose video_files 0 0 w1 of
                      (Inl e, w2, tr) \<Rightarrow>
                        (Inl e, w2,
                         [Makedirs output_dir, Log INFO (Batch_start (length video_files))] @ tr)
                    | (Inr (s, f), w2, tr) \<Rightarrow>
                        (Inr (s, f), w2,
                         [Makedirs output_dir, Log INFO (Batch_start (length video_files))] @ tr
                         @ [Log INFO (Batch_done s f)]))))"

section \<open>The command line\<close>

text \<open>Lines 27 to 40: the probe of the engine.\<close>

definition check_ffmpeg :: "'w env \<Rightarrow> 'w \<Rightarrow> (exn + bool) \<times> 'w \<times> event list" where
  "check_ffmpeg E w =
     (case subprocess_run E [''ffmpeg'', ''-version''] True w of
        (CompletedProcess, w1) \<Rightarrow> (Inr True, w1, [Run [''ffmpeg'', ''-version''] True])
      | (CalledProcessError rc err, w1) \<Rightarrow>
          (Inr False, w1,
           [Run [''ffmpeg'', ''-version''] True,
            Log ERROR Ffmpeg_not_installed, Log ERROR Ffmpeg_install_hint])
      | (RunRaised e, w1) \<Rightarrow>
          (if e = FileNotFoundError
           then (Inr False, w1,
                 [Run [''ffmpeg'', ''-version''] True,
                  Log ERROR Ffmpeg_not_installed, Log ERROR Ffmpeg_install_hint])
           else (Inl (OSErr e), w1, [Run [''ffmpeg'', ''-version''] True])))"

text \<open>The namespace \<^verbatim>\<open>parse_arguments\<close> returns.\<close>

record args =
  arg_input :: path
  arg_output :: path
  arg_format :: string
  arg_quality :: string
  arg_batch :: bool
  arg_verbose :: bool

text \<open>
  Lines 211 to 259, from the parsed arguments on. \<open>Inr ()\<close> is the normal return (exit
  status 0), \<open>Inl (SystemExit 1)\<close> is \<^verbatim>\<open>sys.exit(1)\<close>.
\<close>

definition main :: "'w env \<Rightarrow> args \<Rightarrow> 'w \<Rightarrow> (exn + unit) \<times> 'w \<times> event list" where
  "main E a w =
     (case check_ffmpeg E w of
        (Inl e, w1, tr) \<Rightarrow> (Inl e, w1, tr)
      | (Inr False, w1, tr) \<Rightarrow> (Inl (SystemExit 1), w1, tr)
      | (Inr True, w1, tr) \<Rightarrow>
          if arg_batch a then
            (if \<not> os_path_isdir E w1 (arg_input a)
             then (Inl (SystemExit 1), w1, tr @ [Log ERROR (Batch_input_not_dir (arg_input a))])
             else
               (case batch_convert E (arg_input a) (arg_output a) (arg_format a) (arg_quality a)
                       (arg_verbose a) w1 of
                  (Inl e, w2, tr') \<Rightarrow> (Inl e, w2, tr @ tr')
                | (Inr (s, f), w2, tr') \<Rightarrow>
                    if f > 0 then (Inl (SystemExit 1), w2, tr @ tr' @ [Log INFO (Summary s f)])
                    else (Inr (), w2, tr @ tr' @ [Log INFO (Summary s f), Log INFO Finished])))
          else
            (if \<not> os_path_isfile E w1 (arg_input a)
             then (Inl (SystemExit 1), w1, tr @ [Log ERROR (Input_not_found (arg_input a))])
             else
               (case convert_video_to_audio E (arg_input a) (arg_output a) (arg_format a)
                       (arg_quality a) (arg_verbose a) w1 of
                  (Inl e, w2, tr') \<Rightarrow> (Inl e, w2, tr @ tr')
                | (Inr False, w2, tr') \<Rightarrow> (Inl (SystemExit 1), w2, tr @ tr')
                | (Inr True, w2, tr') \<Rightarrow> (Inr (), w2, tr @ tr' @ [Log INFO Finished]))))"

section \<open>A stubbed environment\<close>

text \<open>
  One directory \<open>in\<close> with the given names in it, every other path a regular file;
  directories can always be created; the engine fails with status 1 and the error text
  \<open>boom\<close> on the inputs listed in \<open>bad\<close>, and succeeds otherwise. The world is the list
  of commands run so far.
\<close>

fun stub_spawn :: "path list \<Rightarrow> string list list \<Rightarrow> string list \<Rightarrow> proc_result \<times> string list list" where
  "stub_spawn bad w (prog # flag # inp # others) =
     (if inp \<in> set bad then Exited 1 ''boom'' else Exited 0 [], w @ [prog # flag # inp # others])"
| "stub_spawn bad w cmd = (Exited 0 [], w @ [cmd])"

definition stub :: "string list \<Rightarrow> path list \<Rightarrow> string list list env" where
  "stub names bad =
     \<lparr> kind = (\<lambda>w p. if p = ''in'' then Some Directory
                      else if p = ''nowhere'' then None else Some RegularFile),
       listdir = (\<lambda>w d. if d = ''in'' then Some names else None),
       glob_dirs = (\<lambda>w d. []),
       mkdirs = (\<lambda>w p. (None, w)),
       spawn = stub_spawn bad \<rparr>"

text \<open>
  The same, with an engine that cannot be started (the program is not found) on the
  inputs listed in \<open>gone\<close> and succeeds on the others.
\<close>

fun stub_spawn_gone :: "path list \<Rightarrow> string list list \<Rightarrow> string list \<Rightarrow> proc_result \<times> string list list" where
  "stub_spawn_gone gone w (prog # flag # inp # others) =
     (if inp \<in> set gone then SpawnError FileNotFoundError else Exited 0 [],
      w @ [prog # flag # inp # others])"
| "stub_spawn_gone gone w cmd = (Exited 0 [], w @ [cmd])"

definition stub_unstartable :: "string list \<Rightarrow> path list \<Rightarrow> string list list env" where
  "stub_unstartable names gone = (stub names []) \<lparr> spawn := stub_spawn_gone gone \<rparr>"

text \<open>The same, on a file system where no directory can be created.\<close>

definition stub_readonly :: "string list \<Rightarrow> path list \<Rightarrow> string list list env" where
  "stub_readonly names bad = (stub names bad) \<lparr> mkdirs := (\<lambda>w p. (Some PermissionError, w)) \<rparr>"

section \<open>Vocabulary of the properties\<close>

text \<open>The outcome a conversion reports: the success message, or one of its two error messages.\<close>

fun is_success :: "event \<Rightarrow> bool" where
  "is_success (Log INFO (Conversion_ok a b)) = True"
| "is_success _ = False"

fun is_failure :: "event \<Rightarrow> bool" where
  "is_failure (Log ERROR (Input_not_found p)) = True"
| "is_failure (Log ERROR (Conversion_error cmd rc)) = True"
| "is_failure _ = False"

text \<open>An environment in which nothing raises: directories can be created, programs can be started.\<close>

definition no_os_error :: "'w env \<Rightarrow> bool" where
  "no_os_error E =
     ((\<forall>w p. fst (mkdirs E w p) = None) \<and> (\<forall>w cmd e. fst (spawn E w cmd) \<noteq> SpawnError e))"

text \<open>
  The names the enumeration is after: not hidden, and ending in a dot and one of the
  seven extensions, written all in lower case or all in upper case.
\<close>

definition extensions :: "string list" where
  "extensions = [''mp4'', ''avi'', ''mov'', ''mkv'', ''wmv'', ''flv'', ''webm'']"

definition is_video_name :: "string \<Rightarrow> bool" where
  "is_video_name n =
     (\<not> ishidden n
      \<and> (\<exists>x \<in> set extensions. suffix (CHR ''.'' # x) n \<or> suffix (CHR ''.'' # upper x) n))"

text \<open>No text of the list is the end of another.\<close>

fun incomparable :: "string list \<Rightarrow> bool" where
  "incomparable [] = True"
| "incomparable (s # ss) = ((\<forall>t \<in> set ss. \<not> suffix s t \<and> \<not> suffix t s) \<and> incomparable ss)"

text \<open>
  The conversions of a batch, as \<^verbatim>\<open>convert_video_to_audio\<close> makes them on the files in
  order: each on the output path derived for its file and in the world the one before
  left, none after one that raised. Each entry is the result, the world afterwards and
  the effects of one conversion.
\<close>

fun item_runs ::
  "'w env \<Rightarrow> path \<Rightarrow> string \<Rightarrow> string \<Rightarrow> bool \<Rightarrow> path list \<Rightarrow> 'w
   \<Rightarrow> ((exn + bool) \<times> 'w \<times> event list) list" where
  "item_runs E output_dir audio_format quality verbose [] w = []"
| "item_runs E output_dir audio_format quality verbose (video_file # rest) w =
     (case convert_video_to_audio E video_file
             (derive_output_path output_dir audio_format video_file)
             audio_format quality verbose w of
        (Inl e, w1, tr) \<Rightarrow> [(Inl e, w1, tr)]
      | (Inr ok, w1, tr) \<Rightarrow>
          (Inr ok, w1, tr) # item_runs E output_dir audio_format quality verbose rest w1)"

text \<open>A conversion that returned (true or false), as opposed to one that raised.\<close>

definition returned :: "(exn + bool) \<times> 'w \<times> event list \<Rightarrow> bool" where
  "returned r = (\<not> isl (fst r))"

text \<open>A pattern text without wildcard characters.\<close>

definition literal :: "string \<Rightarrow> bool" where
  "literal s = (\<forall>c \<in> set s. c \<noteq> CHR ''*'' \<and> c \<noteq> CHR ''?'')"

text \<open>The fourteen endings the patterns of the program ask for, in the order of the loop.\<close>

definition video_suffixes :: "string list" where
  "video_suffixes = concat (map (\<lambda>x. [CHR ''.'' # x, CHR ''.'' # upper x]) extensions)"

section \<open>Properties of convert_video_to_audio\<close>

lemmas path_defs = basename_def dirname_def rstrip_sep_def output_parent_def join_def
  os_path_split_def splitext_def

lemmas stub_defs = stub_def stub_readonly_def os_path_exists_def os_path_isfile_def
  os_path_isdir_def subprocess_run_def

text \<open>
  C1. The argument vector always holds \<^verbatim>\<open>-vn\<close>; for \<^verbatim>\<open>mp3\<close> it selects
  \<^verbatim>\<open>libmp3lame\<close> with the bitrate \<open>quality\<close>, for \<^verbatim>\<open>wav\<close> it selects \<^verbatim>\<open>pcm_s16le\<close> and
  nothing more, for any other format it selects \<^verbatim>\<open>copy\<close>. When the input exists and the
  output directory is there, the engine is started exactly once, on this vector, whatever
  the format; the function raises only if the engine cannot be started.
\<close>

theorem engine_parameters:
  "''-vn'' \<in> set (ffmpeg_cmd i p f q)
   \<and> (f = ''mp3'' \<longrightarrow>
        ffmpeg_cmd i p f q = [''ffmpeg'', ''-i'', i, ''-vn'', ''-c:a'', ''libmp3lame'', ''-b:a'', q, p])
   \<and> (f = ''wav'' \<longrightarrow>
        ffmpeg_cmd i p f q = [''ffmpeg'', ''-i'', i, ''-vn'', ''-c:a'', ''pcm_s16le'', p])
   \<and> (f \<noteq> ''mp3'' \<and> f \<noteq> ''wav'' \<longrightarrow>
        ffmpeg_cmd i p f q = [''ffmpeg'', ''-i'', i, ''-vn'', ''-c:a'', ''copy'', p])
   \<and> (os_path_exists E w i \<and> fst (mkdirs E w (output_parent p)) = None \<longrightarrow>
        filter is_run (snd (snd (convert_video_to_audio E i p f q v w)))
          = [Run (ffmpeg_cmd i p f q) (\<not> v)]
        \<and> fst (convert_video_to_audio E i p f q v w)
          = (case fst (spawn E (snd (mkdirs E w (output_parent p))) (ffmpeg_cmd i p f q)) of
               SpawnError e \<Rightarrow> Inl (OSErr e)
             | Exited rc err \<Rightarrow> Inr (rc = 0)))"
proof -
  have cmd: "''-vn'' \<in> set (ffmpeg_cmd i p f q)"
    by (simp add: ffmpeg_cmd_def Let_def)
  have run: "filter is_run (snd (snd (convert_video_to_audio E i p f q v w)))
          = [Run (ffmpeg_cmd i p f q) (\<not> v)]
        \<and> fst (convert_video_to_audio E i p f q v w)
          = (case fst (spawn E (snd (mkdirs E w (output_parent p))) (ffmpeg_cmd i p f q)) of
               SpawnError e \<Rightarrow> Inl (OSErr e)
             | Exited rc err \<Rightarrow> Inr (rc = 0))"
    if "os_path_exists E w i" "fst (mkdirs E w (output_parent p)) = None"
    using that
    by (cases "mkdirs E w (output_parent p)";
        cases "spawn E (snd (mkdirs E w (output_parent p))) (ffmpeg_cmd i p f q)")
       (auto simp: convert_video_to_audio_def subprocess_run_def Let_def
             split: proc_result.splits)
  show ?thesis
    using cmd run by (simp add: ffmpeg_cmd_def Let_def)
qed

theorem engine_parameters_witness:
  "ffmpeg_cmd ''in/a.mp4'' ''out/a.mp3'' ''mp3'' ''192k''
     = [''ffmpeg'', ''-i'', ''in/a.mp4'', ''-vn'', ''-c:a'', ''libmp3lame'', ''-b:a'', ''192k'', ''out/a.mp3'']
   \<and> ffmpeg_cmd ''in/a.mp4'' ''out/a.wav'' ''wav'' ''192k''
     = [''ffmpeg'', ''-i'', ''in/a.mp4'', ''-vn'', ''-c:a'', ''pcm_s16le'', ''out/a.wav'']
   \<and> ffmpeg_cmd ''in/a.mp4'' ''out/a.ogg'' ''ogg'' ''192k''
     = [''ffmpeg'', ''-i'', ''in/a.mp4'', ''-vn'', ''-c:a'', ''copy'', ''out/a.ogg'']
   \<and> os_path_exists (stub [] []) [] ''in/a.mp4''
   \<and> fst (mkdirs (stub [] []) [] (output_parent ''out/a.ogg'')) = None
   \<and> filter is_run (snd (snd (convert_video_to_audio (stub [] []) ''in/a.mp4'' ''out/a.ogg''
                                  ''ogg'' ''192k'' False [])))
      = [Run [''ffmpeg'', ''-i'', ''in/a.mp4'', ''-vn'', ''-c:a'', ''copy'', ''out/a.ogg''] True]
   \<and> fst (convert_video_to_audio (stub [] []) ''in/a.mp4'' ''out/a.ogg'' ''ogg'' ''192k'' False [])
      = Inr True"
proof -
  have ex: "os_path_exists (stub [] []) [] ''in/a.mp4''"
    by (simp add: stub_defs)
  have mk: "fst (mkdirs (stub [] []) [] (output_parent ''out/a.ogg'')) = None"
    by (simp add: stub_defs)
  have sp: "fst (spawn (stub [] []) (snd (mkdirs (stub [] []) [] (output_parent ''out/a.ogg'')))
                  [''ffmpeg'', ''-i'', ''in/a.mp4'', ''-vn'', ''-c:a'', ''copy'', ''out/a.ogg''])
            = Exited 0 []"
    by (simp add: stub_defs)
  show ?thesis
    using engine_parameters [of "''in/a.mp4''" "''out/a.mp3''" "''mp3''" "''192k''"
                                "stub [] []" "[]" False]
          engine_parameters [of "''in/a.mp4''" "''out/a.wav''" "''wav''" "''192k''"
                                "stub [] []" "[]" False]
          engine_parameters [of "''in/a.mp4''" "''out/a.ogg''" "''ogg''" "''192k''"
                                "stub [] []" "[]" False]
          ex mk sp
    by simp
qed

text \<open>
  C10. With a format other than \<^verbatim>\<open>mp3\<close>, two conversions that differ only in the quality
  build the same argument vector and have the same result, world and effects.
\<close>

theorem quality_only_for_mp3:
  assumes "f \<noteq> ''mp3''"
  shows "ffmpeg_cmd i p f q1 = ffmpeg_cmd i p f q2
         \<and> convert_video_to_audio E i p f q1 v w = convert_video_to_audio E i p f q2 v w"
proof -
  have eq: "ffmpeg_cmd i p f q1 = ffmpeg_cmd i p f q2"
    using assms by (simp add: ffmpeg_cmd_def)
  show ?thesis
    by (simp only: convert_video_to_audio_def eq)
qed

theorem quality_only_for_mp3_witness:
  "''wav'' \<noteq> ''mp3''
   \<and> ffmpeg_cmd ''in/a.mp4'' ''out/a.wav'' ''wav'' ''128k''
     = ffmpeg_cmd ''in/a.mp4'' ''out/a.wav'' ''wav'' ''320k''
   \<and> convert_video_to_audio (stub [] []) ''in/a.mp4'' ''out/a.wav'' ''wav'' ''128k'' False []
     = convert_video_to_audio (stub [] []) ''in/a.mp4'' ''out/a.wav'' ''wav'' ''320k'' False []"
proof -
  have ne: "''wav'' \<noteq> ''mp3''" by simp
  show ?thesis
    using ne quality_only_for_mp3 [OF ne, of "''in/a.mp4''" "''out/a.wav''" "''128k''" "''320k''"
                                     "stub [] []" False "[]"]
    by simp
qed

text \<open>With \<^verbatim>\<open>mp3\<close> the quality does reach the engine.\<close>

lemma quality_matters_for_mp3:
  "ffmpeg_cmd ''a.mp4'' ''a.mp3'' ''mp3'' ''128k'' \<noteq> ffmpeg_cmd ''a.mp4'' ''a.mp3'' ''mp3'' ''320k''"
  by (simp add: ffmpeg_cmd_def)

text \<open>
  C4, as stated, asks for the failure whenever the input is not a regular file. The test
  of the function is \<^verbatim>\<open>os.path.exists\<close>: a directory passes it, the engine is started on
  it, and the failure reported is the engine's.
\<close>

theorem directory_input_reaches_engine:
  "\<not> os_path_isfile (stub [] [''in'']) [] ''in''
   \<and> convert_video_to_audio (stub [] [''in'']) ''in'' ''out/a.mp3'' ''mp3'' ''192k'' False []
     = (Inr False,
        [[''ffmpeg'', ''-i'', ''in'', ''-vn'', ''-c:a'', ''libmp3lame'', ''-b:a'', ''192k'', ''out/a.mp3'']],
        [Makedirs ''out'',
         Run [''ffmpeg'', ''-i'', ''in'', ''-vn'', ''-c:a'', ''libmp3lame'', ''-b:a'', ''192k'', ''out/a.mp3''] True,
         Log ERROR (Conversion_error
           [''ffmpeg'', ''-i'', ''in'', ''-vn'', ''-c:a'', ''libmp3lame'', ''-b:a'', ''192k'', ''out/a.mp3''] 1)])"
  by (simp add: stub_defs convert_video_to_audio_def ffmpeg_cmd_def path_defs Let_def)

text \<open>
  C4, amended. When nothing exists at the input path, the function returns false without
  raising, having only logged that the input was not found: no directory is created, the
  engine is not started, the world is untouched.
\<close>

theorem missing_input_returns_false:
  assumes "\<not> os_path_exists E w i"
  shows "convert_video_to_audio E i p f q v w = (Inr False, w, [Log ERROR (Input_not_found i)])"
  using assms by (simp add: convert_video_to_audio_def)

theorem missing_input_returns_false_witness:
  "\<not> os_path_exists (stub [] []) [] ''nowhere''
   \<and> convert_video_to_audio (stub [] []) ''nowhere'' ''out/a.mp3'' ''mp3'' ''192k'' False []
     = (Inr False, [], [Log ERROR (Input_not_found ''nowhere'')])"
proof -
  have ne: "\<not> os_path_exists (stub [] []) [] ''nowhere''"
    by (simp add: stub_defs)
  show ?thesis
    using ne missing_input_returns_false [OF ne] by simp
qed

text \<open>
  C5, as stated, asks for a typed failure when the output directory cannot be created.
  \<^verbatim>\<open>os.makedirs\<close> is called outside any \<^verbatim>\<open>try\<close>: its exception leaves the function, and
  leaves \<^verbatim>\<open>batch_convert\<close> as well.
\<close>

theorem unwritable_output_dir_raises:
  "os_path_exists (stub_readonly [] []) [] ''in/a.mp4''
   \<and> convert_video_to_audio (stub_readonly [] []) ''in/a.mp4'' ''out/a.mp3'' ''mp3'' ''192k'' False []
     = (Inl (OSErr PermissionError), [], [Makedirs ''out''])
   \<and> batch_convert (stub_readonly [''a.mp4''] []) ''in'' ''out'' ''mp3'' ''192k'' False []
     = (Inl (OSErr PermissionError), [], [Makedirs ''out/''])"
  by (simp add: stub_defs convert_video_to_audio_def batch_convert_def path_defs Let_def)

text \<open>
  C5, amended. For an input that exists, the function first calls \<^verbatim>\<open>os.makedirs\<close> on the
  parent directory of the output path (the current directory when the path has none).
  When the directory is there or was created, the engine is started afterwards. When the
  creation fails, the error is raised to the caller: nothing is returned and the engine
  is not started.
\<close>

theorem output_directory_creation:
  assumes "os_path_exists E w i"
  shows "(\<forall>w1. mkdirs E w (output_parent p) = (None, w1) \<longrightarrow>
            (\<exists>rest. snd (snd (convert_video_to_audio E i p f q v w))
                       = Makedirs (output_parent p) # rest
                     \<and> Run (ffmpeg_cmd i p f q) (\<not> v) \<in> set rest))
         \<and> (\<forall>e w1. mkdirs E w (output_parent p) = (Some e, w1) \<longrightarrow>
              convert_video_to_audio E i p f q v w
                = (Inl (OSErr e), w1, [Makedirs (output_parent p)]))"
  using assms
  by (auto simp: convert_video_to_audio_def Let_def split: prod.splits run_outcome.splits)

theorem output_directory_creation_witness:
  "os_path_exists (stub [] []) [] ''in/a.mp4''
   \<and> mkdirs (stub [] []) [] (output_parent ''out/sub/a.mp3'') = (None, [])
   \<and> snd (snd (convert_video_to_audio (stub [] []) ''in/a.mp4'' ''out/sub/a.mp3'' ''mp3'' ''192k'' False []))
       = [Makedirs ''out/sub'',
          Run [''ffmpeg'', ''-i'', ''in/a.mp4'', ''-vn'', ''-c:a'', ''libmp3lame'', ''-b:a'', ''192k'', ''out/sub/a.mp3''] True,
          Log INFO (Conversion_ok ''a.mp4'' ''a.mp3'')]
   \<and> os_path_exists (stub_readonly [] []) [] ''in/a.mp4''
   \<and> mkdirs (stub_readonly [] []) [] (output_parent ''out/sub/a.mp3'') = (Some PermissionError, [])
   \<and> convert_video_to_audio (stub_readonly [] []) ''in/a.mp4'' ''out/sub/a.mp3'' ''mp3'' ''192k'' False []
       = (Inl (OSErr PermissionError), [], [Makedirs ''out/sub''])"
proof -
  have ex: "os_path_exists (stub [] []) [] ''in/a.mp4''"
    and ex': "os_path_exists (stub_readonly [] []) [] ''in/a.mp4''"
    by (simp_all add: stub_defs)
  have mk: "mkdirs (stub [] []) [] (output_parent ''out/sub/a.mp3'') = (None, [])"
    and mk': "mkdirs (stub_readonly [] []) [] (output_parent ''out/sub/a.mp3'') = (Some PermissionError, [])"
    by (simp_all add: stub_defs)
  have tr: "snd (snd (convert_video_to_audio (stub [] []) ''in/a.mp4'' ''out/sub/a.mp3'' ''mp3'' ''192k'' False []))
       = [Makedirs ''out/sub'',
          Run [''ffmpeg'', ''-i'', ''in/a.mp4'', ''-vn'', ''-c:a'', ''libmp3lame'', ''-b:a'', ''192k'', ''out/sub/a.mp3''] True,
          Log INFO (Conversion_ok ''a.mp4'' ''a.mp3'')]"
    by (simp add: stub_defs convert_video_to_audio_def ffmpeg_cmd_def path_defs Let_def)
  show ?thesis
    using ex ex' mk mk' tr
      output_directory_creation [OF ex, of "''out/sub/a.mp3''" "''mp3''" "''192k''" False]
      output_directory_creation [OF ex', of "''out/sub/a.mp3''" "''mp3''" "''192k''" False]
    by simp
qed

text \<open>
  C7. When the engine exits with a non-zero status the function returns false, and the
  error stream is captured exactly when the run is not verbose: this much holds. The
  captured text, though, goes nowhere. The branch that logs it asks for
  \<^verbatim>\<open>verbose and e.stderr\<close>, and in a verbose run nothing was captured, so no run ever logs
  the details; the result is the same whatever the engine wrote.
\<close>

lemma details_never_logged:
  "Log ERROR (Details d) \<notin> set (snd (snd (convert_video_to_audio E i p f q v w)))"
  by (auto simp: convert_video_to_audio_def subprocess_run_def Let_def
           split: prod.splits option.splits proc_result.splits if_splits)

lemma engine_failure_returns_false:
  assumes "os_path_exists E w i" and "mkdirs E w (output_parent p) = (None, w1)"
    and "spawn E w1 (ffmpeg_cmd i p f q) = (Exited rc err, w2)" and "rc \<noteq> 0"
  shows "convert_video_to_audio E i p f q v w
         = (Inr False, w2,
            Makedirs (output_parent p)
            # (if v then [Log INFO (Executing (ffmpeg_cmd i p f q))] else [])
            @ [Run (ffmpeg_cmd i p f q) (\<not> v), Log ERROR (Conversion_error (ffmpeg_cmd i p f q) rc)])"
  using assms
  by (simp add: convert_video_to_audio_def subprocess_run_def Let_def)

text \<open>
  C7 at a concrete failing run: the engine exits with status 1 having written \<open>boom\<close>;
  quiet or verbose, the report holds the command and the status only.
\<close>

theorem captured_error_text_dropped:
  "spawn (stub [] [''in/a.mp4'']) []
     [''ffmpeg'', ''-i'', ''in/a.mp4'', ''-vn'', ''-c:a'', ''libmp3lame'', ''-b:a'', ''192k'', ''out/a.mp3'']
     = (Exited 1 ''boom'',
        [[''ffmpeg'', ''-i'', ''in/a.mp4'', ''-vn'', ''-c:a'', ''libmp3lame'', ''-b:a'', ''192k'', ''out/a.mp3'']])
   \<and> convert_video_to_audio (stub [] [''in/a.mp4'']) ''in/a.mp4'' ''out/a.mp3'' ''mp3'' ''192k'' False []
     = (Inr False,
        [[''ffmpeg'', ''-i'', ''in/a.mp4'', ''-vn'', ''-c:a'', ''libmp3lame'', ''-b:a'', ''192k'', ''out/a.mp3'']],
        [Makedirs ''out'',
         Run [''ffmpeg'', ''-i'', ''in/a.mp4'', ''-vn'', ''-c:a'', ''libmp3lame'', ''-b:a'', ''192k'', ''out/a.mp3''] True,
         Log ERROR (Conversion_error
           [''ffmpeg'', ''-i'', ''in/a.mp4'', ''-vn'', ''-c:a'', ''libmp3lame'', ''-b:a'', ''192k'', ''out/a.mp3''] 1)])
   \<and> convert_video_to_audio (stub [] [''in/a.mp4'']) ''in/a.mp4'' ''out/a.mp3'' ''mp3'' ''192k'' True []
     = (Inr False,
        [[''ffmpeg'', ''-i'', ''in/a.mp4'', ''-vn'', ''-c:a'', ''libmp3lame'', ''-b:a'', ''192k'', ''out/a.mp3'']],
        [Makedirs ''out'',
         Log INFO (Executing
           [''ffmpeg'', ''-i'', ''in/a.mp4'', ''-vn'', ''-c:a'', ''libmp3lame'', ''-b:a'', ''192k'', ''out/a.mp3'']),
         Run [''ffmpeg'', ''-i'', ''in/a.mp4'', ''-vn'', ''-c:a'', ''libmp3lame'', ''-b:a'', ''192k'', ''out/a.mp3''] False,
         Log ERROR (Conversion_error
           [''ffmpeg'', ''-i'', ''in/a.mp4'', ''-vn'', ''-c:a'', ''libmp3lame'', ''-b:a'', ''192k'', ''out/a.mp3''] 1)])"
  by (simp add: stub_defs convert_video_to_audio_def ffmpeg_cmd_def path_defs Let_def)

section \<open>Properties of batch_convert\<close>

text \<open>
  Each conversion that returns reports exactly one outcome; the loop adds one to exactly
  one counter for it and goes on to the next file.
\<close>

lemma convert_outcome:
  assumes "convert_video_to_audio E i p f q v w = (Inr ok, w', tr)"
  shows "length (filter is_success tr) = (if ok then 1 else 0)
         \<and> length (filter is_failure tr) = (if ok then 0 else 1)"
  using assms
  by (auto simp: convert_video_to_audio_def subprocess_run_def Let_def
           split: prod.splits option.splits proc_result.splits if_splits)

lemma convert_returns:
  assumes "no_os_error E"
  shows "\<exists>ok w' tr. convert_video_to_audio E i p f q v w = (Inr ok, w', tr)"
proof -
  have mk: "fst (mkdirs E w (output_parent p)) = None"
    using assms by (simp add: no_os_error_def)
  have sp: "spawn E w1 (ffmpeg_cmd i p f q) \<noteq> (SpawnError e, w2)" for w1 e w2
    using assms by (auto simp: no_os_error_def dest: arg_cong [where f = fst])
  show ?thesis
    using mk sp
    by (auto simp: convert_video_to_audio_def subprocess_run_def Let_def
           split: prod.splits option.splits proc_result.splits)
qed

lemma batch_loop_counts:
  assumes "batch_loop E od f q v files sc fc w = (Inr (s, fl), w', tr)"
  shows "s = sc + length (filter is_success tr) \<and> fl = fc + length (filter is_failure tr)
         \<and> s + fl = sc + fc + length files"
  using assms
proof (induction files arbitrary: sc fc w tr)
  case Nil
  then show ?case by simp
next
  case (Cons x xs)
  obtain r w1 tr1 where c: "convert_video_to_audio E x (derive_output_path od f x) f q v w = (r, w1, tr1)"
    by (cases "convert_video_to_audio E x (derive_output_path od f x) f q v w") auto
  show ?case
  proof (cases r)
    case (Inl e)
    with c Cons.prems show ?thesis by simp
  next
    case (Inr ok)
    obtain r2 w2 tr2 where l: "batch_loop E od f q v xs (if ok then sc + 1 else sc)
                  (if ok then fc else fc + 1) w1 = (r2, w2, tr2)"
      by (cases "batch_loop E od f q v xs (if ok then sc + 1 else sc)
                  (if ok then fc else fc + 1) w1") auto
    from c Inr l Cons.prems have r2: "r2 = Inr (s, fl)" and tr: "tr = tr1 @ tr2"
      and w2: "w2 = w'"
      by simp_all
    from Cons.IH [OF l [unfolded r2 w2]] convert_outcome [OF c [unfolded Inr]] tr
    show ?thesis by (cases ok) simp_all
  qed
qed

section \<open>Properties of the enumeration\<close>

text \<open>A pattern \<^verbatim>\<open>*\<close> followed by plain text matches the names that end in that text.\<close>

lemma fnmatchcase_literal:
  "literal s \<Longrightarrow> fnmatchcase n s = (n = s)"
proof (induction s arbitrary: n)
  case Nil
  then show ?case by (cases n) simp_all
next
  case (Cons c s)
  then show ?case by (cases n) (auto simp: literal_def)
qed

lemma fnmatchcase_star:
  assumes "literal s"
  shows "fnmatchcase n (CHR ''*'' # s) = suffix s n"
proof (induction n)
  case Nil
  show ?case
    using fnmatchcase_literal [OF assms, of "[]"] by auto
next
  case (Cons c cs)
  show ?case
    using Cons fnmatchcase_literal [OF assms, of "c # cs"]
    by (auto simp: suffix_Cons)
qed

text \<open>The paths built for \<^verbatim>\<open>glob\<close> split back into the directory and the pattern.\<close>

lemma join_empty_cases: "join d [] = [] \<or> last (join d []) = CHR ''/''"
  by (simp add: join_def)

lemma basename_append:
  assumes "x = [] \<or> last x = CHR ''/''" and "\<not> has_sep n"
  shows "basename (x @ n) = n"
proof -
  have all: "takeWhile (\<lambda>c. c \<noteq> CHR ''/'') (rev n) = rev n"
    using assms(2) by (intro takeWhile_eq_all_conv [THEN iffD2]) (auto simp: has_sep_def)
  show ?thesis
  proof (cases "x = []")
    case True
    show ?thesis
      by (simp only: basename_def True append_Nil all rev_rev_ident)
  next
    case False
    with assms obtain y where x: "x = y @ ''/''"
      by (metis append_butlast_last_id)
    have "takeWhile (\<lambda>c. c \<noteq> CHR ''/'') (rev n @ CHR ''/'' # rev y) = rev n"
      using assms(2) by (subst takeWhile_append2) (auto simp: has_sep_def)
    then show ?thesis
      by (simp add: basename_def x)
  qed
qed

lemma dirname_append:
  assumes "x = [] \<or> last x = CHR ''/''" and "\<not> has_sep n"
  shows "dirname (x @ n) = dirname x"
proof -
  have "dropWhile (\<lambda>c. c \<noteq> CHR ''/'') (rev n @ rev x) = dropWhile (\<lambda>c. c \<noteq> CHR ''/'') (rev x)"
    using assms(2) by (intro dropWhile_append2) (auto simp: has_sep_def)
  then show ?thesis
    by (simp add: dirname_def)
qed

lemma join_dir_pattern:
  assumes "\<not> has_sep n" 
  shows "join (join d []) n = join d [] @ n"
  using assms join_empty_cases [of d]
  by (cases n) (auto simp: join_def has_sep_def)

lemma split_dir_pattern:
  assumes "\<not> has_sep n"
  shows "os_path_split (join (join d []) n) = (dirname (join d []), n)"
  using assms join_empty_cases [of d]
  by (simp add: join_dir_pattern os_path_split_def basename_append dirname_append)

text \<open>
  Each call of \<^verbatim>\<open>glob\<close> keeps the visible names with one ending; the files found are
  these lists, one after the other.
\<close>

lemma video_suffixes_eval:
  "video_suffixes = [''.mp4'', ''.MP4'', ''.avi'', ''.AVI'', ''.mov'', ''.MOV'', ''.mkv'', ''.MKV'',
                     ''.wmv'', ''.WMV'', ''.flv'', ''.FLV'', ''.webm'', ''.WEBM'']"
  by (simp add: video_suffixes_def extensions_def upper_def ascii_upper_def)

lemma glob_glob_suffix:
  assumes "literal s" and "\<not> has_sep s"
    and "dirname (join d []) \<noteq> []" and "\<not> has_magic (dirname (join d []))"
    and "listdir E w (dirname (join d [])) = Some names"
  shows "glob_glob E w (join (join d []) (CHR ''*'' # s))
         = map (join (dirname (join d [])))
               (filter (\<lambda>n. suffix s n) (filter (\<lambda>n. \<not> ishidden n) names))"
proof -
  have "\<not> has_sep (CHR ''*'' # s)"
    using assms(2) by (simp add: has_sep_def)
  then have "os_path_split (join (join d []) (CHR ''*'' # s)) = (dirname (join d []), CHR ''*'' # s)"
    by (rule split_dir_pattern)
  then show ?thesis
    using assms(3,4,5) by (simp add: glob_glob_def glob1_def fnmatchcase_star [OF assms(1)])
qed


lemma find_video_files_suffixes:
  assumes "dirname (join d []) \<noteq> []" and "\<not> has_magic (dirname (join d []))"
    and "listdir E w (dirname (join d [])) = Some names"
  shows "find_video_files E w (join d [])
         = concat (map (\<lambda>s. map (join (dirname (join d [])))
                                  (filter (\<lambda>n. suffix s n) (filter (\<lambda>n. \<not> ishidden n) names)))
                       video_suffixes)"
  by (simp add: find_video_files_def video_extensions_def upper_def ascii_upper_def
        video_suffixes_eval glob_glob_suffix [OF _ _ assms] literal_def has_sep_def)

lemma is_video_name_suffixes:
  "is_video_name n = (\<not> ishidden n \<and> (\<exists>s \<in> set video_suffixes. suffix s n))"
  by (auto simp: is_video_name_def video_suffixes_def)

lemma incomparable_video_suffixes: "incomparable video_suffixes"
  by (simp add: video_suffixes_eval suffix_to_prefix)

lemma distinct_concat_filters:
  assumes "distinct xs" and "inj_on J (set xs)"
  shows "incomparable S \<Longrightarrow> distinct (concat (map (\<lambda>s. map J (filter (\<lambda>n. suffix s n) xs)) S))"
proof (induction S)
  case Nil
  show ?case by simp
next
  case (Cons s S)
  have d1: "distinct (map J (filter (\<lambda>n. suffix s n) xs))"
    using assms by (simp add: distinct_map inj_on_def)
  have d2: "distinct (concat (map (\<lambda>s. map J (filter (\<lambda>n. suffix s n) xs)) S))"
    using Cons by simp
  have disj: "False" if "x \<in> set xs" "suffix s x" "y \<in> set xs" "t \<in> set S" "suffix t y" "J x = J y"
    for x y t
  proof -
    from that assms(2) have "x = y" by (auto dest: inj_onD)
    with that have "suffix s t \<or> suffix t s"
      using suffix_same_cases by blast
    with Cons.prems that(4) show False by auto
  qed
  show ?case
    using d1 d2 disj by (fastforce simp: distinct_append)
qed

lemma join_inj:
  assumes "\<forall>n \<in> set names. \<not> has_sep n"
  shows "inj_on (join D) (set names)"
proof (rule inj_onI)
  fix x y
  assume "x \<in> set names" "y \<in> set names" "join D x = join D y"
  with assms have "\<not> has_sep x" "\<not> has_sep y" by auto
  then have "join D x = (if D = [] \<or> last D = CHR ''/'' then D else D @ ''/'') @ x"
    and "join D y = (if D = [] \<or> last D = CHR ''/'' then D else D @ ''/'') @ y"
    by (cases x; cases y; auto simp: join_def has_sep_def)+
  with \<open>join D x = join D y\<close> show "x = y" by simp
qed


lemma dirname_of_dir:
  assumes "d \<noteq> []"
  shows "dirname (join d []) \<noteq> []" and "set (dirname (join d [])) \<subseteq> set d \<union> {CHR ''/''}"
proof -
  define x where "x = join d []"
  have x: "x \<noteq> []" "last x = CHR ''/''" "set x \<subseteq> set d \<union> {CHR ''/''}"
    using assms by (auto simp: x_def join_def)
  then have "hd (rev x) = CHR ''/''" "rev x \<noteq> []"
    by (simp_all add: hd_rev)
  then have "dropWhile (\<lambda>c. c \<noteq> CHR ''/'') (rev x) = rev x"
    by (cases "rev x") simp_all
  then have dn: "dirname x = (if \<exists>c \<in> set x. c \<noteq> CHR ''/'' then rstrip_sep x else x)"
    using x(1) by (simp add: dirname_def)
  have ne: "rstrip_sep x \<noteq> []" if "\<exists>c \<in> set x. c \<noteq> CHR ''/''"
    using that by (auto simp: rstrip_sep_def dropWhile_eq_Nil_conv)
  have sub: "set (rstrip_sep x) \<subseteq> set x"
    by (auto simp: rstrip_sep_def dest: set_dropWhileD)
  show "dirname (join d []) \<noteq> []"
    using dn ne x(1) by (auto simp: x_def [symmetric])
  show "set (dirname (join d [])) \<subseteq> set d \<union> {CHR ''/''}"
    using dn sub x(3) by (auto simp: x_def [symmetric])
qed

lemma dirname_of_dir_no_magic:
  assumes "d \<noteq> []" and "\<not> has_magic d"
  shows "\<not> has_magic (dirname (join d []))"
  using dirname_of_dir(2) [OF assms(1)] assms(2)
  by (auto simp: has_magic_def)

lemma stub_find:
  "find_video_files (stub names bad) w ''in/''
   = concat (map (\<lambda>s. map (join ''in'') (filter (\<lambda>n. suffix s n) (filter (\<lambda>n. \<not> ishidden n) names)))
                 video_suffixes)"
proof -
  have j: "join ''in'' [] = ''in/''" and d: "dirname ''in/'' = ''in''"
    by (simp_all add: path_defs)
  have "dirname (join ''in'' []) \<noteq> []" "\<not> has_magic (dirname (join ''in'' []))"
    "listdir (stub names bad) w (dirname (join ''in'' [])) = Some names"
    by (simp_all add: j d has_magic_def stub_def)
  from find_video_files_suffixes [OF this] show ?thesis
    by (simp only: j d)
qed

text \<open>
  C2, as stated, asks for case-insensitive matching: three work items for the directory
  holding \<^verbatim>\<open>a.MP4\<close>, \<^verbatim>\<open>b.mp4\<close> and \<^verbatim>\<open>c.Mp4\<close>. The program asks \<^verbatim>\<open>glob\<close> for each
  pattern as written and in upper case, nothing else: the mixed-case name matches neither,
  and two files are found.
\<close>

theorem mixed_case_extension_missed:
  "find_video_files (stub [''a.MP4'', ''b.mp4'', ''c.Mp4''] []) [] (join ''in'' [])
     = [''in/b.mp4'', ''in/a.MP4'']
   \<and> length (find_video_files (stub [''a.MP4'', ''b.mp4'', ''c.Mp4''] []) [] (join ''in'' [])) \<noteq> 3"
proof -
  have j: "join ''in'' [] = ''in/''"
    by (simp add: join_def)
  show ?thesis
    by (simp add: j stub_find video_suffixes_eval suffix_to_prefix join_def)
qed

text \<open>
  C2, amended. For a directory named without pattern characters, whose listing has each
  name once, the files found are exactly the entries that are not hidden and end in a dot
  and one of the seven extensions, all in lower case or all in upper case; no path is
  found twice.
\<close>

theorem enumeration_lower_and_upper:
  assumes "d \<noteq> []" and "\<not> has_magic d"
    and "listdir E w (dirname (join d [])) = Some names"
    and "distinct names" and "\<forall>n \<in> set names. \<not> has_sep n"
  shows "set (find_video_files E w (join d []))
           = join (dirname (join d [])) ` {n \<in> set names. is_video_name n}
         \<and> distinct (find_video_files E w (join d []))"
proof -
  let ?D = "dirname (join d [])"
  let ?vis = "filter (\<lambda>n. \<not> ishidden n) names"
  have eq: "find_video_files E w (join d [])
         = concat (map (\<lambda>s. map (join ?D) (filter (\<lambda>n. suffix s n) ?vis)) video_suffixes)"
    using dirname_of_dir(1) [OF assms(1)] dirname_of_dir_no_magic [OF assms(1,2)] assms(3)
    by (rule find_video_files_suffixes)
  have "inj_on (join ?D) (set ?vis)"
    using join_inj [OF assms(5)] by (auto simp: inj_on_def)
  then have "distinct (concat (map (\<lambda>s. map (join ?D) (filter (\<lambda>n. suffix s n) ?vis)) video_suffixes))"
    using assms(4) incomparable_video_suffixes by (intro distinct_concat_filters) simp_all
  moreover have "set (concat (map (\<lambda>s. map (join ?D) (filter (\<lambda>n. suffix s n) ?vis)) video_suffixes))
        = join ?D ` {n \<in> set names. is_video_name n}"
    by (auto simp: is_video_name_suffixes)
  ultimately show ?thesis
    by (simp only: eq)
qed

theorem enumeration_lower_and_upper_witness:
  "''in'' \<noteq> [] \<and> \<not> has_magic ''in''
   \<and> listdir (stub [''a.MP4'', ''b.mp4'', ''c.Mp4'', ''notes.txt''] []) [] (dirname (join ''in'' []))
       = Some [''a.MP4'', ''b.mp4'', ''c.Mp4'', ''notes.txt'']
   \<and> distinct [''a.MP4'', ''b.mp4'', ''c.Mp4'', ''notes.txt'']
   \<and> \<not> has_sep ''a.MP4'' \<and> \<not> has_sep ''b.mp4'' \<and> \<not> has_sep ''c.Mp4'' \<and> \<not> has_sep ''notes.txt''
   \<and> set (find_video_files (stub [''a.MP4'', ''b.mp4'', ''c.Mp4'', ''notes.txt''] []) [] (join ''in'' []))
       = {''in/a.MP4'', ''in/b.mp4''}
   \<and> distinct (find_video_files (stub [''a.MP4'', ''b.mp4'', ''c.Mp4'', ''notes.txt''] []) [] (join ''in'' []))"
proof -
  let ?names = "[''a.MP4'', ''b.mp4'', ''c.Mp4'', ''notes.txt'']"
  have d: "dirname (join ''in'' []) = ''in''"
    by (simp add: path_defs)
  have h1: "''in'' \<noteq> []" and h2: "\<not> has_magic ''in''"
    by (simp_all add: has_magic_def)
  have h3: "listdir (stub ?names []) [] (dirname (join ''in'' [])) = Some ?names"
    by (simp add: d stub_def)
  have h4: "distinct ?names" and h5: "\<forall>n \<in> set ?names. \<not> has_sep n"
    by (simp_all add: has_sep_def)
  have n1: "is_video_name ''a.MP4''" and n2: "is_video_name ''b.mp4''"
    and n3: "\<not> is_video_name ''c.Mp4''" and n4: "\<not> is_video_name ''notes.txt''"
    by (simp_all add: is_video_name_suffixes video_suffixes_eval suffix_to_prefix)
  have "{n \<in> set ?names. is_video_name n} = set (filter is_video_name ?names)"
    by (simp only: set_filter)
  also have "\<dots> = {''a.MP4'', ''b.mp4''}"
    by (simp add: n1 n2 n3 n4)
  finally have v: "{n \<in> set ?names. is_video_name n} = {''a.MP4'', ''b.mp4''}" .
  have img: "join ''in'' ` {''a.MP4'', ''b.mp4''} = {''in/a.MP4'', ''in/b.mp4''}"
    by (simp add: join_def)
  show ?thesis
    using enumeration_lower_and_upper [OF h1 h2 h3 h4 h5] h1 h2 h3 h4 h5
    unfolding d v img by simp
qed

section \<open>Properties of the batch report\<close>

lemma no_os_error_stub: "no_os_error (stub names bad)"
proof -
  have "fst (stub_spawn bad w cmd) \<noteq> SpawnError e" for w cmd e
    by (cases "(bad, w, cmd)" rule: stub_spawn.cases) auto
  then show ?thesis
    by (simp add: no_os_error_def stub_def)
qed

text \<open>
  The loop against the conversions of its files: it returns the counters exactly when
  every conversion returned, and its effects are theirs, one after the other.
\<close>

lemma returned_simps:
  "returned (Inr b, w, tr)" "\<not> returned (Inl e, w, tr)"
  by (simp_all add: returned_def)

lemma item_runs_Cons:
  assumes "convert_video_to_audio E x (derive_output_path od f x) f q v w = (r, w1, tr)"
  shows "item_runs E od f q v (x # xs) w
         = (r, w1, tr) # (case r of Inl e \<Rightarrow> [] | Inr ok \<Rightarrow> item_runs E od f q v xs w1)"
  using assms by (cases r) simp_all

lemma item_runs_all:
  "list_all returned (item_runs E od f q v files w) \<Longrightarrow>
   length (item_runs E od f q v files w) = length files
   \<and> length (filter (\<lambda>r. fst r = Inr True) (item_runs E od f q v files w))
     + length (filter (\<lambda>r. fst r = Inr False) (item_runs E od f q v files w)) = length files"
proof (induction files arbitrary: w)
  case Nil
  show ?case by simp
next
  case (Cons x xs)
  obtain r w1 tr where c: "convert_video_to_audio E x (derive_output_path od f x) f q v w = (r, w1, tr)"
    by (cases "convert_video_to_audio E x (derive_output_path od f x) f q v w") auto
  show ?case
  proof (cases r)
    case (Inl e)
    with Cons.prems show ?thesis
      by (simp add: item_runs_Cons [OF c] returned_simps del: item_runs.simps)
  next
    case (Inr ok)
    with Cons.prems have "list_all returned (item_runs E od f q v xs w1)"
      by (simp add: item_runs_Cons [OF c] del: item_runs.simps)
    from Cons.IH [OF this] Inr show ?thesis
      by (cases ok) (simp_all add: item_runs_Cons [OF c] del: item_runs.simps)
  qed
qed

lemma item_runs_no_os_error:
  assumes "no_os_error E"
  shows "list_all returned (item_runs E od f q v files w)"
proof (induction files arbitrary: w)
  case Nil
  show ?case by simp
next
  case (Cons x xs)
  obtain ok w1 tr where c: "convert_video_to_audio E x (derive_output_path od f x) f q v w = (Inr ok, w1, tr)"
    using convert_returns [OF assms] by blast
  from Cons.IH [of w1] show ?case
    by (simp add: item_runs_Cons [OF c] returned_simps del: item_runs.simps)
qed

lemma batch_loop_result:
  "(list_all returned (item_runs E od f q v files w) \<longrightarrow>
      fst (batch_loop E od f q v files sc fc w)
      = Inr (sc + length (filter (\<lambda>r. fst r = Inr True) (item_runs E od f q v files w)),
             fc + length (filter (\<lambda>r. fst r = Inr False) (item_runs E od f q v files w))))
   \<and> (\<not> list_all returned (item_runs E od f q v files w) \<longrightarrow>
      (\<exists>e. fst (batch_loop E od f q v files sc fc w) = Inl e
           \<and> fst (last (item_runs E od f q v files w)) = Inl e))"
proof (induction files arbitrary: sc fc w)
  case Nil
  show ?case by simp
next
  case (Cons x xs)
  obtain r w1 tr where c: "convert_video_to_audio E x (derive_output_path od f x) f q v w = (r, w1, tr)"
    by (cases "convert_video_to_audio E x (derive_output_path od f x) f q v w") auto
  show ?case
  proof (cases r)
    case (Inl e)
    with c show ?thesis by (simp add: returned_def)
  next
    case (Inr ok)
    have ne: "item_runs E od f q v xs w1 \<noteq> []" if "\<not> list_all returned (item_runs E od f q v xs w1)"
      using that by auto
    show ?thesis
      using c Inr Cons.IH [of w1 "if ok then sc + 1 else sc" "if ok then fc else fc + 1"] ne
      by (cases ok) (auto simp: returned_def split: prod.splits)
  qed
qed

lemma batch_loop_trace:
  "snd (snd (batch_loop E od f q v files sc fc w))
   = concat (map (\<lambda>r. snd (snd r)) (item_runs E od f q v files w))"
proof (induction files arbitrary: sc fc w)
  case Nil
  show ?case by simp
next
  case (Cons x xs)
  obtain r w1 tr where c: "convert_video_to_audio E x (derive_output_path od f x) f q v w = (r, w1, tr)"
    by (cases "convert_video_to_audio E x (derive_output_path od f x) f q v w") auto
  show ?case
    using c Cons.IH [of "if projr r then sc + 1 else sc" "if projr r then fc else fc + 1" w1]
    by (cases r) (auto split: prod.splits)
qed

lemma batch_convert_runs:
  assumes "mkdirs E w (join odir []) = (None, w1)"
  shows "fst (batch_convert E idir odir f q v w)
           = fst (batch_loop E (join odir []) f q v (find_video_files E w1 (join idir [])) 0 0 w1)"
    and "filter is_run (snd (snd (batch_convert E idir odir f q v w)))
           = filter is_run (snd (snd (batch_loop E (join odir []) f q v
                                        (find_video_files E w1 (join idir [])) 0 0 w1)))"
  using assms
  by (auto simp: batch_convert_def Let_def split: prod.splits sum.splits)

text \<open>The stubbed engine on three files, one of which it fails on.\<close>

lemma stub_three:
  "find_video_files (stub [''a.mp4'', ''b.mp4'', ''c.mp4''] bad) w ''in/''
     = [''in/a.mp4'', ''in/b.mp4'', ''in/c.mp4'']"
  by (simp add: stub_find video_suffixes_eval suffix_to_prefix join_def)

lemma stub_convert:
  "convert_video_to_audio (stub names bad) i p ''mp3'' ''192k'' False w
   = (Inr (i \<notin> set bad), w @ [ffmpeg_cmd i p ''mp3'' ''192k''],
      [Makedirs (output_parent p), Run (ffmpeg_cmd i p ''mp3'' ''192k'') True,
       if i \<in> set bad then Log ERROR (Conversion_error (ffmpeg_cmd i p ''mp3'' ''192k'') 1)
       else Log INFO (Conversion_ok (basename i) (basename p))])"
  if "i \<noteq> ''nowhere''"
  using that
  by (simp add: convert_video_to_audio_def stub_def os_path_exists_def subprocess_run_def
        ffmpeg_cmd_def Let_def)

lemma stub_batch:
  "fst (batch_convert (stub [''a.mp4'', ''b.mp4'', ''c.mp4''] bad) ''in'' ''out'' ''mp3'' ''192k'' False [])
   = Inr (length (filter (\<lambda>i. i \<notin> set bad) [''in/a.mp4'', ''in/b.mp4'', ''in/c.mp4'']),
          length (filter (\<lambda>i. i \<in> set bad) [''in/a.mp4'', ''in/b.mp4'', ''in/c.mp4'']))"
proof -
  have j: "join ''in'' [] = ''in/''" "join ''out'' [] = ''out/''"
    by (simp_all add: join_def)
  have mk: "mkdirs (stub [''a.mp4'', ''b.mp4'', ''c.mp4''] bad) [] ''out/'' = (None, [])"
    by (simp add: stub_def)
  show ?thesis
    by (simp add: batch_convert_def j mk stub_three stub_convert Let_def split: prod.splits)
qed

lemma stub_unstartable_three:
  "find_video_files (stub_unstartable [''a.mp4'', ''b.mp4'', ''c.mp4''] gone) w ''in/''
     = [''in/a.mp4'', ''in/b.mp4'', ''in/c.mp4'']"
proof -
  let ?E = "stub_unstartable [''a.mp4'', ''b.mp4'', ''c.mp4''] gone"
  have j: "join ''in'' [] = ''in/''" and d: "dirname ''in/'' = ''in''"
    by (simp_all add: path_defs)
  have "dirname (join ''in'' []) \<noteq> []" "\<not> has_magic (dirname (join ''in'' []))"
    "listdir ?E w (dirname (join ''in'' [])) = Some [''a.mp4'', ''b.mp4'', ''c.mp4'']"
    by (simp_all add: j d has_magic_def stub_unstartable_def stub_def)
  from find_video_files_suffixes [OF this] show ?thesis
    by (simp add: j d video_suffixes_eval suffix_to_prefix join_def)
qed

text \<open>
  C3, as stated, has every item processed after any failure. A conversion that raises is
  not caught by the loop: here the engine cannot be started on the first of three files
  found, the exception leaves \<^verbatim>\<open>batch_convert\<close>, the two other files are never
  converted and no counter is returned.
\<close>

theorem unstartable_engine_ends_batch:
  "find_video_files (stub_unstartable [''a.mp4'', ''b.mp4'', ''c.mp4''] [''in/a.mp4'']) [] (join ''in'' [])
     = [''in/a.mp4'', ''in/b.mp4'', ''in/c.mp4'']
   \<and> batch_convert (stub_unstartable [''a.mp4'', ''b.mp4'', ''c.mp4''] [''in/a.mp4''])
        ''in'' ''out'' ''mp3'' ''192k'' False []
      = (Inl (OSErr FileNotFoundError),
         [[''ffmpeg'', ''-i'', ''in/a.mp4'', ''-vn'', ''-c:a'', ''libmp3lame'', ''-b:a'', ''192k'', ''out/a.mp3'']],
         [Makedirs ''out/'', Log INFO (Batch_start 3), Makedirs ''out'',
          Run [''ffmpeg'', ''-i'', ''in/a.mp4'', ''-vn'', ''-c:a'', ''libmp3lame'', ''-b:a'', ''192k'', ''out/a.mp3''] True])"
proof -
  have j: "join ''in'' [] = ''in/''" "join ''out'' [] = ''out/''"
    by (simp_all add: join_def)
  have mk: "mkdirs (stub_unstartable names gone) w p = (None, w)" for names gone w p
    by (simp add: stub_unstartable_def stub_def)
  have c: "convert_video_to_audio (stub_unstartable [''a.mp4'', ''b.mp4'', ''c.mp4''] [''in/a.mp4''])
             ''in/a.mp4'' ''out/a.mp3'' ''mp3'' ''192k'' False []
           = (Inl (OSErr FileNotFoundError),
         [[''ffmpeg'', ''-i'', ''in/a.mp4'', ''-vn'', ''-c:a'', ''libmp3lame'', ''-b:a'', ''192k'', ''out/a.mp3'']],
         [Makedirs ''out'',
          Run [''ffmpeg'', ''-i'', ''in/a.mp4'', ''-vn'', ''-c:a'', ''libmp3lame'', ''-b:a'', ''192k'', ''out/a.mp3''] True])"
    by (simp add: convert_video_to_audio_def stub_unstartable_def stub_def os_path_exists_def
          subprocess_run_def ffmpeg_cmd_def path_defs Let_def)
  have d: "derive_output_path ''out/'' ''mp3'' ''in/a.mp4'' = ''out/a.mp3''"
    by (simp add: derive_output_path_def path_defs Let_def)
  show ?thesis
    by (simp add: batch_convert_def j mk stub_unstartable_three c d Let_def)
qed

text \<open>
  C3, amended. Once the output directory is there, \<^verbatim>\<open>batch_convert\<close> converts the
  files found in order, each with \<^verbatim>\<open>convert_video_to_audio\<close>, and goes on after every
  conversion that returns false. It returns its counters exactly when no conversion
  raises; then every file found has been converted once, the success counter is the
  number of conversions that returned true, the failure counter the number that
  returned false, and they add up to the number of files found. The engine is started
  by these conversions and by nothing else. Where neither the creation of directories nor
  the start of the engine can fail, no conversion raises. With three files of which the
  engine fails on one, the counters are 2 and 1 wherever the failing file stands.
\<close>

theorem batch_processes_every_item:
  assumes "mkdirs E w (join odir []) = (None, w1)"
  shows "(list_all returned
            (item_runs E (join odir []) f q v (find_video_files E w1 (join idir [])) w1) \<longrightarrow>
            length (item_runs E (join odir []) f q v (find_video_files E w1 (join idir [])) w1)
              = length (find_video_files E w1 (join idir []))
            \<and> fst (batch_convert E idir odir f q v w)
              = Inr (length (filter (\<lambda>r. fst r = Inr True)
                        (item_runs E (join odir []) f q v (find_video_files E w1 (join idir [])) w1)),
                     length (filter (\<lambda>r. fst r = Inr False)
                        (item_runs E (join odir []) f q v (find_video_files E w1 (join idir [])) w1)))
            \<and> length (filter (\<lambda>r. fst r = Inr True)
                        (item_runs E (join odir []) f q v (find_video_files E w1 (join idir [])) w1))
              + length (filter (\<lambda>r. fst r = Inr False)
                        (item_runs E (join odir []) f q v (find_video_files E w1 (join idir [])) w1))
              = length (find_video_files E w1 (join idir [])))
         \<and> (\<not> list_all returned
            (item_runs E (join odir []) f q v (find_video_files E w1 (join idir [])) w1) \<longrightarrow>
            (\<exists>e. fst (batch_convert E idir odir f q v w) = Inl e))
         \<and> filter is_run (snd (snd (batch_convert E idir odir f q v w)))
            = concat (map (\<lambda>r. filter is_run (snd (snd r)))
                (item_runs E (join odir []) f q v (find_video_files E w1 (join idir [])) w1))
         \<and> (no_os_error E \<longrightarrow>
            list_all returned
              (item_runs E (join odir []) f q v (find_video_files E w1 (join idir [])) w1))"
proof -
  let ?files = "find_video_files E w1 (join idir [])"
  let ?runs = "item_runs E (join odir []) f q v ?files w1"
  note r = batch_loop_result [of E "join odir []" f q v ?files w1 0 0]
  have tr: "filter is_run (snd (snd (batch_convert E idir odir f q v w)))
            = concat (map (\<lambda>r. filter is_run (snd (snd r))) ?runs)"
    by (simp add: batch_convert_runs(2) [OF assms] batch_loop_trace filter_concat comp_def)
  have ok: "no_os_error E \<longrightarrow> list_all returned ?runs"
    by (simp add: item_runs_no_os_error)
  show ?thesis
    using r item_runs_all [of E "join odir []" f q v ?files w1] tr ok
    by (auto simp: batch_convert_runs(1) [OF assms])
qed

theorem batch_processes_every_item_witness:
  "(mkdirs (stub [''a.mp4'', ''b.mp4'', ''c.mp4''] [''in/a.mp4'']) [] (join ''out'' []) = (None, [])
    \<and> list_all returned
          (item_runs (stub [''a.mp4'', ''b.mp4'', ''c.mp4''] [''in/a.mp4'']) (join ''out'' [])
             ''mp3'' ''192k'' False
             (find_video_files (stub [''a.mp4'', ''b.mp4'', ''c.mp4''] [''in/a.mp4'']) [] (join ''in'' []))
             [])
    \<and> fst (batch_convert (stub [''a.mp4'', ''b.mp4'', ''c.mp4''] [''in/a.mp4''])
              ''in'' ''out'' ''mp3'' ''192k'' False []) = Inr (2, 1))
   \<and> (mkdirs (stub [''a.mp4'', ''b.mp4'', ''c.mp4''] [''in/b.mp4'']) [] (join ''out'' []) = (None, [])
    \<and> list_all returned
          (item_runs (stub [''a.mp4'', ''b.mp4'', ''c.mp4''] [''in/b.mp4'']) (join ''out'' [])
             ''mp3'' ''192k'' False
             (find_video_files (stub [''a.mp4'', ''b.mp4'', ''c.mp4''] [''in/b.mp4'']) [] (join ''in'' []))
             [])
    \<and> fst (batch_convert (stub [''a.mp4'', ''b.mp4'', ''c.mp4''] [''in/b.mp4''])
              ''in'' ''out'' ''mp3'' ''192k'' False []) = Inr (2, 1))
   \<and> (mkdirs (stub [''a.mp4'', ''b.mp4'', ''c.mp4''] [''in/c.mp4'']) [] (join ''out'' []) = (None, [])
    \<and> list_all returned
          (item_runs (stub [''a.mp4'', ''b.mp4'', ''c.mp4''] [''in/c.mp4'']) (join ''out'' [])
             ''mp3'' ''192k'' False
             (find_video_files (stub [''a.mp4'', ''b.mp4'', ''c.mp4''] [''in/c.mp4'']) [] (join ''in'' []))
             [])
    \<and> fst (batch_convert (stub [''a.mp4'', ''b.mp4'', ''c.mp4''] [''in/c.mp4''])
              ''in'' ''out'' ''mp3'' ''192k'' False []) = Inr (2, 1))"
proof -
  let ?N = "[''a.mp4'', ''b.mp4'', ''c.mp4'']"
  have mk: "mkdirs (stub ?N bad) [] (join ''out'' []) = (None, [])" for bad
    by (simp add: stub_def)
  have key: "list_all returned
               (item_runs (stub ?N bad) (join ''out'' []) ''mp3'' ''192k'' False
                  (find_video_files (stub ?N bad) [] (join ''in'' [])) [])
             \<and> (\<exists>s fl. fst (batch_convert (stub ?N bad) ''in'' ''out'' ''mp3'' ''192k'' False [])
                          = Inr (s, fl) \<and> s + fl = 3)" for bad
  proof -
    note t = batch_processes_every_item [OF mk, of bad "''mp3''" "''192k''" False "''in''"]
    have j: "join ''in'' [] = ''in/''"
      by (simp add: join_def)
    have n: "length (find_video_files (stub ?N bad) [] (join ''in'' [])) = 3"
      by (simp add: j stub_three)
    from t no_os_error_stub have a: "list_all returned
               (item_runs (stub ?N bad) (join ''out'' []) ''mp3'' ''192k'' False
                  (find_video_files (stub ?N bad) [] (join ''in'' [])) [])"
      by blast
    with t n show ?thesis
      by (metis (lifting))
  qed
  have ev: "fst (batch_convert (stub ?N [''in/a.mp4'']) ''in'' ''out'' ''mp3'' ''192k'' False []) = Inr (2, 1)"
    "fst (batch_convert (stub ?N [''in/b.mp4'']) ''in'' ''out'' ''mp3'' ''192k'' False []) = Inr (2, 1)"
    "fst (batch_convert (stub ?N [''in/c.mp4'']) ''in'' ''out'' ''mp3'' ''192k'' False []) = Inr (2, 1)"
    by (simp_all add: stub_batch)
  show ?thesis
    using key [of "[''in/a.mp4'']"] key [of "[''in/b.mp4'']"] key [of "[''in/c.mp4'']"] ev mk
    by blast
qed

text \<open>What \<^verbatim>\<open>batch_convert\<close> does when no file is found.\<close>

lemma empty_report:
  assumes "mkdirs E w (join odir []) = (None, w1)"
    and "find_video_files E w1 (join idir []) = []"
  shows "batch_convert E idir odir f q v w
         = (Inr (0, 0), w1, [Makedirs (join odir []), Log WARNING (No_video_found (join idir []))])"
  using assms by (simp add: batch_convert_def Let_def)

lemma stub_no_video:
  "find_video_files (stub [''notes.txt'', ''c.Mp4''] bad) w (join ''in'' []) = []"
proof -
  have j: "join ''in'' [] = ''in/''"
    by (simp add: join_def)
  show ?thesis
    by (simp add: j stub_find video_suffixes_eval suffix_to_prefix)
qed



section \<open>Properties of the command line\<close>

lemma stub_check_ffmpeg:
  "check_ffmpeg (stub names bad) [] = (Inr True, [[''ffmpeg'', ''-version'']], [Run [''ffmpeg'', ''-version''] True])"
  by (simp add: check_ffmpeg_def subprocess_run_def stub_def)

text \<open>
  Called on a path that is not a readable directory, \<^verbatim>\<open>glob\<close> finds nothing: so does
  \<^verbatim>\<open>batch_convert\<close>, which returns the empty report.
\<close>

lemma glob_glob_unreadable:
  assumes "\<not> has_sep pat"
    and "dirname (join d []) \<noteq> []" and "\<not> has_magic (dirname (join d []))"
    and "listdir E w (dirname (join d [])) = None"
  shows "glob_glob E w (join (join d []) pat) = []"
  using assms split_dir_pattern [OF assms(1), of d]
  by (simp add: glob_glob_def glob1_def)

lemma find_video_files_unreadable:
  assumes "dirname (join d []) \<noteq> []" and "\<not> has_magic (dirname (join d []))"
    and "listdir E w (dirname (join d [])) = None"
  shows "find_video_files E w (join d []) = []"
  by (simp add: find_video_files_def video_extensions_def upper_def ascii_upper_def
        glob_glob_unreadable [OF _ assms] has_sep_def)

lemma batch_convert_without_precheck:
  "batch_convert (stub names bad) ''nowhere'' ''out'' ''mp3'' ''192k'' False []
   = (Inr (0, 0), [], [Makedirs ''out/'', Log WARNING (No_video_found ''nowhere/'')])"
proof -
  have j: "join ''nowhere'' [] = ''nowhere/''" "join ''out'' [] = ''out/''"
    and d: "dirname ''nowhere/'' = ''nowhere''"
    by (simp_all add: path_defs)
  have "dirname (join ''nowhere'' []) \<noteq> []" "\<not> has_magic (dirname (join ''nowhere'' []))"
    "listdir (stub names bad) [] (dirname (join ''nowhere'' [])) = None"
    by (simp_all add: j d has_magic_def stub_def)
  from find_video_files_unreadable [OF this]
  have "find_video_files (stub names bad) [] (join ''nowhere'' []) = []" .
  moreover have "mkdirs (stub names bad) [] (join ''out'' []) = (None, [])"
    by (simp add: stub_def)
  ultimately show ?thesis
    using empty_report [of "stub names bad" "[]" "''out''" "[]" "''nowhere''"]
    by (simp add: j)
qed

text \<open>
  C6, as stated, has the batch operation fail when its input directory does not exist.
  \<^verbatim>\<open>batch_convert\<close> has no such check: called on a path that does not exist it returns
  the counters 0 and 0 after one warning, as it does for an existing directory in which no
  file matches.
\<close>

theorem batch_convert_has_no_precheck:
  "\<not> os_path_isdir (stub [''notes.txt'', ''c.Mp4''] []) [] ''nowhere''
   \<and> batch_convert (stub [''notes.txt'', ''c.Mp4''] []) ''nowhere'' ''out'' ''mp3'' ''192k'' False []
     = (Inr (0, 0), [], [Makedirs ''out/'', Log WARNING (No_video_found ''nowhere/'')])
   \<and> os_path_isdir (stub [''notes.txt'', ''c.Mp4''] []) [] ''in''
   \<and> batch_convert (stub [''notes.txt'', ''c.Mp4''] []) ''in'' ''out'' ''mp3'' ''192k'' False []
     = (Inr (0, 0), [], [Makedirs ''out/'', Log WARNING (No_video_found ''in/'')])"
proof -
  let ?E = "stub [''notes.txt'', ''c.Mp4''] []"
  have j: "join ''in'' [] = ''in/''" "join ''out'' [] = ''out/''"
    by (simp_all add: join_def)
  have mk: "mkdirs ?E [] (join ''out'' []) = (None, [])"
    by (simp add: stub_def)
  have a: "\<not> os_path_isdir ?E [] ''nowhere''" and b: "os_path_isdir ?E [] ''in''"
    by (simp_all add: stub_defs)
  have c: "batch_convert ?E ''in'' ''out'' ''mp3'' ''192k'' False []
     = (Inr (0, 0), [], [Makedirs ''out/'', Log WARNING (No_video_found ''in/'')])"
    using empty_report [OF mk stub_no_video, of "''mp3''" "''192k''" False] by (simp add: j)
  show ?thesis
    using a b c batch_convert_without_precheck [of "[''notes.txt'', ''c.Mp4'']" "[]"]
    by blast
qed

text \<open>
  C6, amended. The check is made by the command line. In batch mode, once the engine has
  been found, an input that is not an existing directory makes the program exit with
  status 1 before any directory is created, any file looked for or any conversion
  started. An existing directory in which no file matches makes it return normally, with
  the report 0 and 0: the two cannot be confused.
\<close>

theorem batch_precheck:
  assumes "arg_batch a" and "check_ffmpeg E w = (Inr True, w1, tr0)"
  shows "(\<not> os_path_isdir E w1 (arg_input a) \<longrightarrow>
            main E a w
              = (Inl (SystemExit 1), w1, tr0 @ [Log ERROR (Batch_input_not_dir (arg_input a))]))
         \<and> (os_path_isdir E w1 (arg_input a)
             \<and> mkdirs E w1 (join (arg_output a) []) = (None, w2)
             \<and> find_video_files E w2 (join (arg_input a) []) = [] \<longrightarrow>
            main E a w
              = (Inr (), w2,
                 tr0 @ [Makedirs (join (arg_output a) []),
                        Log WARNING (No_video_found (join (arg_input a) [])),
                        Log INFO (Summary 0 0), Log INFO Finished]))"
proof (intro conjI impI)
  assume "\<not> os_path_isdir E w1 (arg_input a)"
  with assms show "main E a w
      = (Inl (SystemExit 1), w1, tr0 @ [Log ERROR (Batch_input_not_dir (arg_input a))])"
    by (simp add: main_def)
next
  assume h: "os_path_isdir E w1 (arg_input a)
             \<and> mkdirs E w1 (join (arg_output a) []) = (None, w2)
             \<and> find_video_files E w2 (join (arg_input a) []) = []"
  then have "batch_convert E (arg_input a) (arg_output a) (arg_format a) (arg_quality a)
                (arg_verbose a) w1
             = (Inr (0, 0), w2, [Makedirs (join (arg_output a) []),
                                  Log WARNING (No_video_found (join (arg_input a) []))])"
    by (intro empty_report) simp_all
  with assms h show "main E a w
              = (Inr (), w2,
                 tr0 @ [Makedirs (join (arg_output a) []),
                        Log WARNING (No_video_found (join (arg_input a) [])),
                        Log INFO (Summary 0 0), Log INFO Finished])"
    by (simp add: main_def)
qed

theorem batch_precheck_witness:
  "arg_batch \<lparr>arg_input = ''nowhere'', arg_output = ''out'', arg_format = ''mp3'',
               arg_quality = ''192k'', arg_batch = True, arg_verbose = False\<rparr>
   \<and> \<not> os_path_isdir (stub [''notes.txt'', ''c.Mp4''] []) [[''ffmpeg'', ''-version'']] ''nowhere''
   \<and> main (stub [''notes.txt'', ''c.Mp4''] [])
        \<lparr>arg_input = ''nowhere'', arg_output = ''out'', arg_format = ''mp3'',
         arg_quality = ''192k'', arg_batch = True, arg_verbose = False\<rparr> []
      = (Inl (SystemExit 1), [[''ffmpeg'', ''-version'']],
         [Run [''ffmpeg'', ''-version''] True, Log ERROR (Batch_input_not_dir ''nowhere'')])
   \<and> os_path_isdir (stub [''notes.txt'', ''c.Mp4''] []) [[''ffmpeg'', ''-version'']] ''in''
   \<and> main (stub [''notes.txt'', ''c.Mp4''] [])
        \<lparr>arg_input = ''in'', arg_output = ''out'', arg_format = ''mp3'',
         arg_quality = ''192k'', arg_batch = True, arg_verbose = False\<rparr> []
      = (Inr (), [[''ffmpeg'', ''-version'']],
         [Run [''ffmpeg'', ''-version''] True, Makedirs ''out/'',
          Log WARNING (No_video_found ''in/''), Log INFO (Summary 0 0), Log INFO Finished])"
proof -
  let ?E = "stub [''notes.txt'', ''c.Mp4''] []"
  let ?a = "\<lparr>arg_input = ''nowhere'', arg_output = ''out'', arg_format = ''mp3'',
               arg_quality = ''192k'', arg_batch = True, arg_verbose = False\<rparr>"
  let ?b = "\<lparr>arg_input = ''in'', arg_output = ''out'', arg_format = ''mp3'',
               arg_quality = ''192k'', arg_batch = True, arg_verbose = False\<rparr>"
  have ba: "arg_batch ?a" and bb: "arg_batch ?b"
    by simp_all
  have nd: "\<not> os_path_isdir ?E [[''ffmpeg'', ''-version'']] (arg_input ?a)"
    and d: "os_path_isdir ?E [[''ffmpeg'', ''-version'']] (arg_input ?b)"
    by (simp_all add: stub_defs)
  have mk: "mkdirs ?E [[''ffmpeg'', ''-version'']] (join (arg_output ?b) []) = (None, [[''ffmpeg'', ''-version'']])"
    by (simp add: stub_def)
  have nv: "find_video_files ?E [[''ffmpeg'', ''-version'']] (join (arg_input ?b) []) = []"
    using stub_no_video by simp
  have j: "join ''in'' [] = ''in/''" "join ''out'' [] = ''out/''"
    by (simp_all add: join_def)
  from batch_precheck [OF ba stub_check_ffmpeg] nd
  have 1: "main ?E ?a [] = (Inl (SystemExit 1), [[''ffmpeg'', ''-version'']],
         [Run [''ffmpeg'', ''-version''] True, Log ERROR (Batch_input_not_dir ''nowhere'')])"
    by simp
  from batch_precheck [OF bb stub_check_ffmpeg, where ?w2.0 = "[[''ffmpeg'', ''-version'']]"] d mk nv
  have 2: "main ?E ?b [] = (Inr (), [[''ffmpeg'', ''-version'']],
         [Run [''ffmpeg'', ''-version''] True, Makedirs ''out/'',
          Log WARNING (No_video_found ''in/''), Log INFO (Summary 0 0), Log INFO Finished])"
    by (simp add: j)
  show ?thesis
    using ba nd d 1 2 by simp
qed

section \<open>Properties of the output path\<close>

lemma basename_no_sep: "\<not> has_sep (basename p)"
  by (auto simp: basename_def has_sep_def dest: set_takeWhileD)

lemma basename_idem: "basename (basename p) = basename p"
  using basename_append [of "[]" "basename p"] basename_no_sep by simp

lemma splitext_name:
  assumes "\<exists>c \<in> set stem. c \<noteq> CHR ''.''" and "\<not> has_sep stem"
    and "\<not> has_sep x" and "CHR ''.'' \<notin> set x"
  shows "splitext (stem @ CHR ''.'' # x) = (stem, CHR ''.'' # x)"
proof -
  let ?n = "stem @ CHR ''.'' # x"
  have "\<not> has_sep ?n"
    using assms by (simp add: has_sep_def)
  then have b: "basename ?n = ?n"
    using basename_append [of "[]" ?n] by simp
  have e: "takeWhile (\<lambda>c. c \<noteq> CHR ''.'') (rev x @ CHR ''.'' # rev stem) = rev x"
    using assms(4) by (subst takeWhile_append2) auto
  show ?thesis
    using assms(1) by (simp add: splitext_def b e Let_def)
qed

text \<open>
  C8. The output path of a file is computed from its path, the format and the output
  directory alone, and from the path only its base name counts. For a file named
  \<open>stem.ext\<close> (the stem not made of dots only) the extension is stripped, a dot and the
  format are appended, and the result is put under the output directory: \<^verbatim>\<open>movie.mkv\<close>
  converted to \<^verbatim>\<open>wav\<close> under \<^verbatim>\<open>/out\<close> goes to \<^verbatim>\<open>/out/movie.wav\<close>.
\<close>

theorem output_path_derivation:
  assumes "\<exists>c \<in> set stem. c \<noteq> CHR ''.''" and "\<not> has_sep stem"
    and "\<not> has_sep x" and "CHR ''.'' \<notin> set x"
    and "dir = [] \<or> last dir = CHR ''/''"
  shows "derive_output_path (join output_dir []) audio_format (dir @ stem @ ''.'' @ x)
           = join output_dir [] @ stem @ ''.'' @ audio_format
         \<and> derive_output_path (join output_dir []) audio_format (dir @ stem @ ''.'' @ x)
           = derive_output_path (join output_dir []) audio_format (stem @ ''.'' @ x)"
proof -
  let ?n = "stem @ ''.'' @ x"
  have ns: "\<not> has_sep ?n"
    using assms by (simp add: has_sep_def)
  have b: "basename (dir @ ?n) = ?n" and b': "basename ?n = ?n"
    using basename_append [OF assms(5) ns] basename_append [of "[]" ?n] ns by simp_all
  have st: "stem \<noteq> []" "hd stem \<noteq> CHR ''/''"
    using assms(1,2) by (cases stem; auto simp: has_sep_def)+
  have j: "join (join output_dir []) (stem @ ''.'' @ audio_format)
           = join output_dir [] @ stem @ ''.'' @ audio_format"
    using st join_empty_cases [of output_dir] by (auto simp: join_def)
  have "derive_output_path (join output_dir []) audio_format p
          = join output_dir [] @ stem @ ''.'' @ audio_format" if "basename p = ?n" for p
    using that splitext_name [OF assms(1-4)] j
    by (simp add: derive_output_path_def Let_def)
  from this [OF b] this [OF b'] show ?thesis by simp
qed

theorem output_path_derivation_witness:
  "(\<exists>c \<in> set ''movie''. c \<noteq> CHR ''.'') \<and> \<not> has_sep ''movie'' \<and> \<not> has_sep ''mkv''
   \<and> CHR ''.'' \<notin> set ''mkv'' \<and> (''in/'' = [] \<or> last ''in/'' = CHR ''/'')
   \<and> derive_output_path (join ''/out'' []) ''wav'' ''in/movie.mkv'' = ''/out/movie.wav''"
proof -
  have h1: "\<exists>c \<in> set ''movie''. c \<noteq> CHR ''.''" and h2: "\<not> has_sep ''movie''"
    and h3: "\<not> has_sep ''mkv''" and h4: "CHR ''.'' \<notin> set ''mkv''"
    and h5: "''in/'' = [] \<or> last ''in/'' = CHR ''/''"
    by (simp_all add: has_sep_def)
  have j: "join ''/out'' [] = ''/out/''"
    by (simp add: join_def)
  show ?thesis
    using output_path_derivation [OF h1 h2 h3 h4 h5, of "''/out''" "''wav''"] h1 h2 h3 h4 h5
    by (simp add: j)
qed

end
